theory Spec2Isabelle
  imports Main "HOL-Library.AList"
begin

section \<open>The indicator store of KLineChart (src/store/IndicatorStore.ts)\<close>

text \<open>
  The store keeps a two-level table: pane id \<mapsto> (indicator name \<mapsto> instance). Both
  levels are JavaScript \<^verbatim>\<open>Map\<close>s, whose iteration order is the order of insertion
  and whose keys are unique; they are modelled as association lists in insertion order.
  \<^verbatim>\<open>Map.get\<close> is \<^const>\<open>map_of\<close>, \<^verbatim>\<open>Map.set\<close> is \<^const>\<open>AList.update\<close>
  (an existing key keeps its position, a new key goes to the end), \<^verbatim>\<open>Map.delete\<close> is
  \<^const>\<open>AList.delete\<close> and \<^verbatim>\<open>Map.clear\<close> leaves \<open>[]\<close>.

  Instances are objects that the source mutates in place. Every instance is created by
  \<^verbatim>\<open>new Template()\<close> inside \<^verbatim>\<open>addInstance\<close> and stored under exactly one
  (pane, name) key, so the model passes instances by value and writes each changed instance
  back under its key.
\<close>

subsection \<open>Data model\<close>

text \<open>
  Opaque payloads of the source (\<^verbatim>\<open>KLineData\<close>, the entries of \<^verbatim>\<open>result\<close>,
  plot descriptors, styles, \<^verbatim>\<open>extendData\<close> and the function-valued capabilities other
  than \<^verbatim>\<open>calc\<close>) are only stored and compared by the store; they are given simple
  stand-in types. JavaScript numbers are modelled as integers: the store never does
  arithmetic on them.
\<close>

type_synonym kLineData = int
type_synonym indicatorResult = int
type_synonym indicatorPlot = string
type_synonym indicatorStyle = string
type_synonym extendData = string
type_synonym capability = nat

text \<open>
  The calculation capability receives the calculation parameters and the data list and
  either produces the result or fails (\<open>None\<close>).
\<close>

type_synonym calcCallback = "int list \<Rightarrow> kLineData list \<Rightarrow> indicatorResult list option"

text \<open>
  Modelled from the spec: the enumeration \<^verbatim>\<open>IndicatorSeries\<close> is declared in
  template/indicator/Indicator, which is not under src/. The spec names the
  classifications \<^verbatim>\<open>PRICE\<close>, \<^verbatim>\<open>VOLUME\<close> and the generic \<^verbatim>\<open>NORMAL\<close>.
\<close>

datatype indicatorSeries = NORMAL | PRICE | VOLUME

text \<open>
  A field of a configuration object that TypeScript types as \<^verbatim>\<open>T | null\<close> and that may
  also be missing has three states. Fields that cannot be null use \<open>'a option\<close>, with
  \<open>None\<close> for \<^verbatim>\<open>undefined\<close>.
\<close>

datatype 'a nullable = Undefined | Null | Val 'a

text \<open>\<^verbatim>\<open>x !== undefined\<close>: the value handed on may still be null (\<open>Some None\<close>).\<close>

fun notUndefined :: "'a nullable \<Rightarrow> 'a option option" where
  "notUndefined Undefined = None"
| "notUndefined Null = Some None"
| "notUndefined (Val v) = Some (Some v)"

text \<open>\<^verbatim>\<open>x !== undefined && x !== null\<close>.\<close>

fun notNullish :: "'a nullable \<Rightarrow> 'a option" where
  "notNullish Undefined = None"
| "notNullish Null = None"
| "notNullish (Val v) = Some v"

text \<open>
  Modelled from the spec: the class \<^verbatim>\<open>IndicatorTemplate\<close> (the instance state) is
  declared in template/indicator/Indicator, which is not under src/. Its attributes are
  those of section 3 of the spec.
\<close>

record indicatorTemplate =
  name :: string
  shortName :: string
  series :: indicatorSeries
  calcParams :: "int list"
  precision :: nat
  plots :: "indicatorPlot list"
  minValue :: "int option"
  maxValue :: "int option"
  shouldOhlc :: bool
  shouldFormatBigNumber :: bool
  styles :: "indicatorStyle option"
  extendData :: extendData
  regeneratePlots :: "capability option"
  createToolTipDataSource :: "capability option"
  draw :: "capability option"
  calc :: calcCallback
  result :: "indicatorResult list"

text \<open>
  The configuration object \<^verbatim>\<open>Omit<Indicator, 'result'>\<close> that \<^verbatim>\<open>addInstance\<close> and
  \<^verbatim>\<open>override\<close> receive: \<^verbatim>\<open>name\<close> is required, every other field may be missing.
\<close>

record indicator =
  ind_name :: string
  ind_shortName :: "string option"
  ind_series :: "indicatorSeries option"
  ind_calcParams :: "int list option"
  ind_precision :: "nat option"
  ind_plots :: "indicatorPlot list option"
  ind_minValue :: "int nullable"
  ind_maxValue :: "int nullable"
  ind_shouldOhlc :: "bool option"
  ind_shouldFormatBigNumber :: "bool option"
  ind_styles :: "indicatorStyle nullable"
  ind_extendData :: "extendData option"
  ind_regeneratePlots :: "capability nullable"
  ind_createToolTipDataSource :: "capability nullable"
  ind_draw :: "capability nullable"
  ind_calc :: "calcCallback option"

text \<open>The configuration \<^verbatim>\<open>{ name: n }\<close>, with every optional field missing.\<close>

definition nameOnly :: "string \<Rightarrow> indicator" where
  "nameOnly n = \<lparr> ind_name = n, ind_shortName = None, ind_series = None,
     ind_calcParams = None, ind_precision = None, ind_plots = None,
     ind_minValue = Undefined, ind_maxValue = Undefined, ind_shouldOhlc = None,
     ind_shouldFormatBigNumber = None, ind_styles = Undefined, ind_extendData = None,
     ind_regeneratePlots = Undefined, ind_createToolTipDataSource = Undefined,
     ind_draw = Undefined, ind_calc = None \<rparr>"

text \<open>\<^verbatim>\<open>Precision\<close> (common/Precision): the argument of \<^verbatim>\<open>setSeriesPrecision\<close>.\<close>

record precisionSetting =
  price :: nat
  volume :: nat

type_synonym paneInstances = "(string \<times> indicatorTemplate) list"

text \<open>
  The store: \<^verbatim>\<open>_templates\<close>, \<^verbatim>\<open>_instances\<close>, and the data list that
  \<^verbatim>\<open>this._chartStore.getDataList()\<close> returns. A template is the constructor of a
  default-configured instance, so it is modelled by the instance it constructs.
\<close>

record indicatorStore =
  dataList :: "kLineData list"
  templates :: "string \<rightharpoonup> indicatorTemplate"
  instances :: "(string \<times> paneInstances) list"

text \<open>
  \<^verbatim>\<open>new Template()\<close> with \<^verbatim>\<open>Template\<close> undefined throws a \<^verbatim>\<open>TypeError\<close>; this is
  the spec's \<^verbatim>\<open>UnknownTemplate\<close>.
\<close>

datatype error = TypeError

subsection \<open>The conditional setters of an instance\<close>

text \<open>
  Modelled from the spec: the setters of \<^verbatim>\<open>IndicatorTemplate\<close> are not under src/.
  Section 4.3 of the spec: each setter performs its own equality check and reports whether
  it actually altered state; setting a field to its current value reports no change.
\<close>

definition setShortName :: "string \<Rightarrow> indicatorTemplate \<Rightarrow> indicatorTemplate \<times> bool" where
  "setShortName v inst =
     (if shortName inst \<noteq> v then (inst\<lparr>shortName := v\<rparr>, True) else (inst, False))"

definition setSeries :: "indicatorSeries \<Rightarrow> indicatorTemplate \<Rightarrow> indicatorTemplate \<times> bool" where
  "setSeries v inst =
     (if series inst \<noteq> v then (inst\<lparr>series := v\<rparr>, True) else (inst, False))"

definition setCalcParams :: "int list \<Rightarrow> indicatorTemplate \<Rightarrow> indicatorTemplate \<times> bool" where
  "setCalcParams v inst =
     (if calcParams inst \<noteq> v then (inst\<lparr>calcParams := v\<rparr>, True) else (inst, False))"

definition setPlots :: "indicatorPlot list \<Rightarrow> indicatorTemplate \<Rightarrow> indicatorTemplate \<times> bool" where
  "setPlots v inst =
     (if plots inst \<noteq> v then (inst\<lparr>plots := v\<rparr>, True) else (inst, False))"

definition setMinValue :: "int option \<Rightarrow> indicatorTemplate \<Rightarrow> indicatorTemplate \<times> bool" where
  "setMinValue v inst =
     (if minValue inst \<noteq> v then (inst\<lparr>minValue := v\<rparr>, True) else (inst, False))"

definition setMaxValue :: "int option \<Rightarrow> indicatorTemplate \<Rightarrow> indicatorTemplate \<times> bool" where
  "setMaxValue v inst =
     (if maxValue inst \<noteq> v then (inst\<lparr>maxValue := v\<rparr>, True) else (inst, False))"

text \<open>
  Modelled from the spec: \<^verbatim>\<open>setPrecision(precision, flag)\<close>. The second argument marks
  an internally forced change (section 4.5); the spec gives it no effect on the value set.
\<close>

definition setPrecision :: "nat \<Rightarrow> bool \<Rightarrow> indicatorTemplate \<Rightarrow> indicatorTemplate \<times> bool" where
  "setPrecision v flag inst =
     (if precision inst \<noteq> v then (inst\<lparr>precision := v\<rparr>, True) else (inst, False))"

definition setShouldOhlc :: "bool \<Rightarrow> indicatorTemplate \<Rightarrow> indicatorTemplate \<times> bool" where
  "setShouldOhlc v inst =
     (if shouldOhlc inst \<noteq> v then (inst\<lparr>shouldOhlc := v\<rparr>, True) else (inst, False))"

definition setShouldFormatBigNumber :: "bool \<Rightarrow> indicatorTemplate \<Rightarrow> indicatorTemplate \<times> bool" where
  "setShouldFormatBigNumber v inst =
     (if shouldFormatBigNumber inst \<noteq> v then (inst\<lparr>shouldFormatBigNumber := v\<rparr>, True)
      else (inst, False))"

definition setStyles :: "indicatorStyle \<Rightarrow> indicatorTemplate \<Rightarrow> indicatorTemplate \<times> bool" where
  "setStyles v inst =
     (if styles inst \<noteq> Some v then (inst\<lparr>styles := Some v\<rparr>, True) else (inst, False))"

definition setExtendData :: "extendData \<Rightarrow> indicatorTemplate \<Rightarrow> indicatorTemplate \<times> bool" where
  "setExtendData v inst =
     (if extendData inst \<noteq> v then (inst\<lparr>extendData := v\<rparr>, True) else (inst, False))"

definition setRegeneratePlots :: "capability \<Rightarrow> indicatorTemplate \<Rightarrow> indicatorTemplate \<times> bool" where
  "setRegeneratePlots v inst =
     (if regeneratePlots inst \<noteq> Some v then (inst\<lparr>regeneratePlots := Some v\<rparr>, True)
      else (inst, False))"

definition setCreateToolTipDataSource ::
    "capability \<Rightarrow> indicatorTemplate \<Rightarrow> indicatorTemplate \<times> bool" where
  "setCreateToolTipDataSource v inst =
     (if createToolTipDataSource inst \<noteq> Some v
      then (inst\<lparr>createToolTipDataSource := Some v\<rparr>, True) else (inst, False))"

definition setDraw :: "capability \<Rightarrow> indicatorTemplate \<Rightarrow> indicatorTemplate \<times> bool" where
  "setDraw v inst =
     (if draw inst \<noteq> Some v then (inst\<lparr>draw := Some v\<rparr>, True) else (inst, False))"

text \<open>
  Modelled from the spec: \<^verbatim>\<open>calcIndicator(dataList)\<close> is a method of
  \<^verbatim>\<open>IndicatorTemplate\<close>, not under src/. Section 4.4: it runs the instance's
  \<^verbatim>\<open>calc\<close> capability over the data list and stores the produced result on the
  instance, replacing any prior result, and returns the success flag; section 7: a failing
  calculation yields \<^verbatim>\<open>false\<close> and the instance retains its previous result.
\<close>

definition calcIndicator :: "kLineData list \<Rightarrow> indicatorTemplate \<Rightarrow> indicatorTemplate \<times> bool" where
  "calcIndicator dl inst =
     (case calc inst (calcParams inst) dl of
        Some r \<Rightarrow> (inst\<lparr>result := r\<rparr>, True)
      | None \<Rightarrow> (inst, False))"

subsection \<open>The override engine: \<^verbatim>\<open>_overrideInstance\<close>\<close>

text \<open>
  One step \<^verbatim>\<open>if (x !== undefined && instance.setX(x)) { overrideSuccess = true }\<close>:
  the setter runs only when the field is present, and its report is or-ed into the flag.
\<close>

definition applySetter ::
    "'a option \<Rightarrow> ('a \<Rightarrow> indicatorTemplate \<Rightarrow> indicatorTemplate \<times> bool) \<Rightarrow>
     indicatorTemplate \<times> bool \<Rightarrow> indicatorTemplate \<times> bool" where
  "applySetter field setter st =
     (case field of
        None \<Rightarrow> st
      | Some v \<Rightarrow> (fst (setter v (fst st)), snd st \<or> snd (setter v (fst st))))"

text \<open>
  The steps in the order of the source (lines 37 to 85). The step for \<^verbatim>\<open>maxValue\<close>
  (line 55) calls \<^verbatim>\<open>instance.setMinValue(maxValue)\<close>, and so does the model. The
  result is the instance after the call and the pair
  \<^verbatim>\<open>[overrideSuccess, calcParamsSuccess]\<close>.
\<close>

definition overrideInstance ::
    "indicatorTemplate \<Rightarrow> indicator \<Rightarrow> indicatorTemplate \<times> bool \<times> bool" where
  "overrideInstance inst indicator =
     (let s1 = applySetter (ind_shortName indicator) setShortName (inst, False);
          s2 = applySetter (ind_series indicator) setSeries s1;
          calcParamsSuccess =
            (case ind_calcParams indicator of
               None \<Rightarrow> False
             | Some v \<Rightarrow> snd (setCalcParams v (fst s2)));
          s3 = applySetter (ind_calcParams indicator) setCalcParams s2;
          s4 = applySetter (ind_plots indicator) setPlots s3;
          s5 = applySetter (notUndefined (ind_minValue indicator)) setMinValue s4;
          s6 = applySetter (notUndefined (ind_maxValue indicator)) setMinValue s5;
          s7 = applySetter (ind_precision indicator) (\<lambda>v. setPrecision v False) s6;
          s8 = applySetter (ind_shouldOhlc indicator) setShouldOhlc s7;
          s9 = applySetter (ind_shouldFormatBigNumber indicator) setShouldFormatBigNumber s8;
          s10 = applySetter (notNullish (ind_styles indicator)) setStyles s9;
          s11 = applySetter (ind_extendData indicator) setExtendData s10;
          s12 = applySetter (notNullish (ind_regeneratePlots indicator)) setRegeneratePlots s11;
          s13 = applySetter (notNullish (ind_createToolTipDataSource indicator))
                  setCreateToolTipDataSource s12;
          s14 = applySetter (notNullish (ind_draw indicator)) setDraw s13;
          inst' = (case ind_calc indicator of
                     None \<Rightarrow> fst s14
                   | Some c \<Rightarrow> (fst s14)\<lparr>calc := c\<rparr>)
      in (inst', snd s14, calcParamsSuccess))"

subsection \<open>The instance table: \<^verbatim>\<open>addInstance\<close>, \<^verbatim>\<open>removeInstance\<close>, \<^verbatim>\<open>hasInstances\<close>\<close>

text \<open>\<^verbatim>\<open>Map.has\<close>.\<close>

definition has :: "('k \<times> 'v) list \<Rightarrow> 'k \<Rightarrow> bool" where
  "has m k = (map_of m k \<noteq> None)"

text \<open>
  \<^verbatim>\<open>addInstance\<close> (lines 95 to 113). The optional call \<^verbatim>\<open>paneInstances?.has(name)\<close>
  is \<^verbatim>\<open>undefined\<close> (\<open>None\<close>) when the pane has no entry and a boolean otherwise; the
  guard compares it with \<^verbatim>\<open>undefined\<close>. The result is the value the promise settles
  with (\<open>Inl\<close> when it rejects) and the store after the call: a store changed before a
  throw stays changed.
\<close>

definition addInstance ::
    "string \<Rightarrow> indicator \<Rightarrow> bool \<Rightarrow> indicatorStore \<Rightarrow> (error + bool) \<times> indicatorStore" where
  "addInstance paneId indicator isStack store =
     (let nm = ind_name indicator;
          paneInstances = map_of (instances store) paneId
      in if map_option (\<lambda>m. has m nm) paneInstances \<noteq> None then (Inr False, store)
         else
           let paneInstances1 = (case paneInstances of None \<Rightarrow> [] | Some m \<Rightarrow> m);
               store1 = (case paneInstances of
                           None \<Rightarrow> store\<lparr>instances := AList.update paneId [] (instances store)\<rparr>
                         | Some m \<Rightarrow> store)
           in case templates store1 nm of
                None \<Rightarrow> (Inl TypeError, store1)
              | Some Template \<Rightarrow>
                  let inst = fst (overrideInstance Template indicator);
                      paneInstances2 = (if \<not> isStack then [] else paneInstances1);
                      calculated = calcIndicator (dataList store1) inst;
                      paneInstances3 = AList.update nm (fst calculated) paneInstances2
                  in (Inr (snd calculated),
                      store1\<lparr>instances := AList.update paneId paneInstances3 (instances store1)\<rparr>))"

text \<open>\<^verbatim>\<open>hasInstances\<close> (lines 155 to 157).\<close>

definition hasInstances :: "string \<Rightarrow> indicatorStore \<Rightarrow> bool" where
  "hasInstances paneId store = has (instances store) paneId"

text \<open>\<^verbatim>\<open>getInstances\<close> (lines 120 to 122).\<close>

definition getInstances :: "string \<Rightarrow> indicatorStore \<Rightarrow> paneInstances" where
  "getInstances paneId store =
     (case map_of (instances store) paneId of Some m \<Rightarrow> m | None \<Rightarrow> [])"

text \<open>
  \<^verbatim>\<open>removeInstance\<close> (lines 130 to 148): a pane whose mapping becomes empty loses its
  entry.
\<close>

definition removeInstance ::
    "string \<Rightarrow> string option \<Rightarrow> indicatorStore \<Rightarrow> bool \<times> indicatorStore" where
  "removeInstance paneId nm store =
     (case map_of (instances store) paneId of
        None \<Rightarrow> (False, store)
      | Some m \<Rightarrow>
          let removed = (case nm of Some n \<Rightarrow> has m n | None \<Rightarrow> True);
              m' = (case nm of
                      Some n \<Rightarrow> (if has m n then AList.delete n m else m)
                    | None \<Rightarrow> [])
          in (removed,
              store\<lparr>instances :=
                (if length m' = 0 then AList.delete paneId (instances store)
                 else AList.update paneId m' (instances store))\<rparr>))"

text \<open>
  \<^verbatim>\<open>getInstance\<close> (lines 197 to 206) returns one of three shapes, by the arguments
  given; \<^verbatim>\<open>null\<close> is \<open>None\<close>.
\<close>

datatype instanceView =
    Single "indicatorTemplate option"
  | OfPane "paneInstances option"
  | WholeTable "(string \<times> paneInstances) list"

definition getInstance :: "string option \<Rightarrow> string option \<Rightarrow> indicatorStore \<Rightarrow> instanceView" where
  "getInstance paneId nm store =
     (case paneId of
        Some pid \<Rightarrow>
          (let paneInstances = map_of (instances store) pid
           in case nm of
                Some n \<Rightarrow> Single (case paneInstances of None \<Rightarrow> None | Some m \<Rightarrow> map_of m n)
              | None \<Rightarrow> OfPane paneInstances)
      | None \<Rightarrow> WholeTable (instances store))"

subsection \<open>The recompute coordinator: \<^verbatim>\<open>calcInstance\<close>\<close>

text \<open>
  Every \<^verbatim>\<open>tasks.push(instance.calcIndicator(...))\<close> starts one recomputation, which
  writes only the result of its own instance, and \<^verbatim>\<open>Promise.all(tasks)\<close> returns the
  flags in the order of the pushes. The model runs the recomputations in that order and
  returns the list of flags with the store.

  \<^verbatim>\<open>paneInstances.forEach(instance => tasks.push(...))\<close>:
\<close>

primrec calcEach :: "kLineData list \<Rightarrow> paneInstances \<Rightarrow> paneInstances \<times> bool list" where
  "calcEach dl [] = ([], [])"
| "calcEach dl (e # es) =
     (let c = calcIndicator dl (snd e); rest = calcEach dl es
      in ((fst e, fst c) # fst rest, snd c # snd rest))"

text \<open>The outer loop of the branch without a name (lines 182 to 186).\<close>

primrec calcEachPane ::
    "kLineData list \<Rightarrow> (string \<times> paneInstances) list \<Rightarrow>
     (string \<times> paneInstances) list \<times> bool list" where
  "calcEachPane dl [] = ([], [])"
| "calcEachPane dl (p # ps) =
     (let c = calcEach dl (snd p); rest = calcEachPane dl ps
      in ((fst p, fst c) # fst rest, snd c @ snd rest))"

text \<open>
  \<^verbatim>\<open>if (paneInstances.has(name)) { tasks.push(paneInstances.get(name).calcIndicator(...)) }\<close>
  on one pane.
\<close>

definition calcNamed :: "kLineData list \<Rightarrow> string \<Rightarrow> paneInstances \<Rightarrow> paneInstances \<times> bool list" where
  "calcNamed dl nm m =
     (case map_of m nm of
        None \<Rightarrow> (m, [])
      | Some inst \<Rightarrow>
          (let c = calcIndicator dl inst in (AList.update nm (fst c) m, [snd c])))"

text \<open>The loop of the branch with a name and without a pane (lines 174 to 179).\<close>

primrec calcNamedEachPane ::
    "kLineData list \<Rightarrow> string \<Rightarrow> (string \<times> paneInstances) list \<Rightarrow>
     (string \<times> paneInstances) list \<times> bool list" where
  "calcNamedEachPane dl nm [] = ([], [])"
| "calcNamedEachPane dl nm (p # ps) =
     (let c = calcNamed dl nm (snd p); rest = calcNamedEachPane dl nm ps
      in ((fst p, fst c) # fst rest, snd c @ snd rest))"

text \<open>\<^verbatim>\<open>calcInstance(name?, paneId?)\<close> (lines 164 to 189).\<close>

definition calcInstance ::
    "string option \<Rightarrow> string option \<Rightarrow> indicatorStore \<Rightarrow> bool list \<times> indicatorStore" where
  "calcInstance nm paneId store =
     (case nm of
        Some n \<Rightarrow>
          (case paneId of
             Some pid \<Rightarrow>
               (case map_of (instances store) pid of
                  None \<Rightarrow> ([], store)
                | Some m \<Rightarrow>
                    (let c = calcNamed (dataList store) n m
                     in (snd c, store\<lparr>instances := AList.update pid (fst c) (instances store)\<rparr>)))
           | None \<Rightarrow>
               (let c = calcNamedEachPane (dataList store) n (instances store)
                in (snd c, store\<lparr>instances := fst c\<rparr>)))
      | None \<Rightarrow>
          (let c = calcEachPane (dataList store) (instances store)
           in (snd c, store\<lparr>instances := fst c\<rparr>)))"

subsection \<open>The precision propagator: \<^verbatim>\<open>setSeriesPrecision\<close>\<close>

text \<open>The body of the inner loop (lines 215 to 220): two tests in sequence.\<close>

definition setInstancePrecision :: "precisionSetting \<Rightarrow> indicatorTemplate \<Rightarrow> indicatorTemplate" where
  "setInstancePrecision p inst =
     (let i1 = (if series inst = PRICE then fst (setPrecision (price p) True inst) else inst);
          i2 = (if series i1 = VOLUME then fst (setPrecision (volume p) True i1) else i1)
      in i2)"

primrec precisionEach :: "precisionSetting \<Rightarrow> paneInstances \<Rightarrow> paneInstances" where
  "precisionEach p [] = []"
| "precisionEach p (e # es) = (fst e, setInstancePrecision p (snd e)) # precisionEach p es"

primrec precisionEachPane ::
    "precisionSetting \<Rightarrow> (string \<times> paneInstances) list \<Rightarrow> (string \<times> paneInstances) list" where
  "precisionEachPane p [] = []"
| "precisionEachPane p (q # qs) = (fst q, precisionEach p (snd q)) # precisionEachPane p qs"

definition setSeriesPrecision :: "precisionSetting \<Rightarrow> indicatorStore \<Rightarrow> indicatorStore" where
  "setSeriesPrecision p store = store\<lparr>instances := precisionEachPane p (instances store)\<rparr>"

subsection \<open>\<^verbatim>\<open>override\<close>\<close>

text \<open>
  The body of the loop (lines 243 to 249) on one pane: the instance under the name of the
  configuration is overridden, and recomputed only when the second flag of
  \<^verbatim>\<open>_overrideInstance\<close> is set.
\<close>

definition overrideNamed ::
    "kLineData list \<Rightarrow> indicator \<Rightarrow> paneInstances \<Rightarrow> paneInstances \<times> bool list" where
  "overrideNamed dl indicator m =
     (case map_of m (ind_name indicator) of
        None \<Rightarrow> (m, [])
      | Some inst \<Rightarrow>
          (let overrideResult = overrideInstance inst indicator
           in if snd (snd overrideResult)
              then (let c = calcIndicator dl (fst overrideResult)
                    in (AList.update (ind_name indicator) (fst c) m, [snd c]))
              else (AList.update (ind_name indicator) (fst overrideResult) m, [])))"

primrec overrideEachPane ::
    "kLineData list \<Rightarrow> indicator \<Rightarrow> (string \<times> paneInstances) list \<Rightarrow>
     (string \<times> paneInstances) list \<times> bool list" where
  "overrideEachPane dl indicator [] = ([], [])"
| "overrideEachPane dl indicator (p # ps) =
     (let r = overrideNamed dl indicator (snd p); rest = overrideEachPane dl indicator ps
      in ((fst p, fst r) # fst rest, snd r @ snd rest))"

text \<open>
  \<^verbatim>\<open>override(indicator, paneId?)\<close> (lines 231 to 252). With a pane id the loop runs
  over a fresh map holding that one pane (the same pane object as in the table); without
  one it runs over the table itself.
\<close>

definition override ::
    "indicator \<Rightarrow> string option \<Rightarrow> indicatorStore \<Rightarrow> bool list \<times> indicatorStore" where
  "override indicator paneId store =
     (case paneId of
        Some pid \<Rightarrow>
          (case map_of (instances store) pid of
             None \<Rightarrow> ([], store)
           | Some m \<Rightarrow>
               (let r = overrideNamed (dataList store) indicator m
                in (snd r, store\<lparr>instances := AList.update pid (fst r) (instances store)\<rparr>)))
      | None \<Rightarrow>
          (let r = overrideEachPane (dataList store) indicator (instances store)
           in (snd r, store\<lparr>instances := fst r\<rparr>)))"

subsection \<open>Reading the table\<close>

text \<open>
  The instance stored under a pane and a name, or \<open>None\<close>: what
  \<^verbatim>\<open>getInstance(paneId, name)\<close> looks up.
\<close>

definition instanceAt :: "indicatorStore \<Rightarrow> string \<Rightarrow> string \<Rightarrow> indicatorTemplate option" where
  "instanceAt store pid n =
     (case map_of (instances store) pid of None \<Rightarrow> None | Some m \<Rightarrow> map_of m n)"

text \<open>
  The instances that \<^verbatim>\<open>override(indicator, paneId)\<close> matches, in the order of the
  iteration: the instance named as the configuration in the given pane, or in every pane
  of the table when no pane is given.
\<close>

definition selectedPanes :: "string option \<Rightarrow> indicatorStore \<Rightarrow> (string \<times> paneInstances) list" where
  "selectedPanes paneId store =
     (case paneId of
        Some pid \<Rightarrow> (case map_of (instances store) pid of Some m \<Rightarrow> [(pid, m)] | None \<Rightarrow> [])
      | None \<Rightarrow> instances store)"

definition matchedInstances ::
    "indicator \<Rightarrow> string option \<Rightarrow> indicatorStore \<Rightarrow> indicatorTemplate list" where
  "matchedInstances indicator paneId store =
     List.map_filter (\<lambda>p. map_of (snd p) (ind_name indicator)) (selectedPanes paneId store)"

text \<open>Every instance of the table, pane by pane, in the order of the iteration.\<close>

definition allInstances :: "indicatorStore \<Rightarrow> indicatorTemplate list" where
  "allInstances store = concat (map (\<lambda>p. map snd (snd p)) (instances store))"

text \<open>What \<^verbatim>\<open>override\<close> leaves in place of a matched instance.\<close>

definition overridden :: "kLineData list \<Rightarrow> indicator \<Rightarrow> indicatorTemplate \<Rightarrow> indicatorTemplate" where
  "overridden dl indicator inst =
     (if snd (snd (overrideInstance inst indicator))
      then fst (calcIndicator dl (fst (overrideInstance inst indicator)))
      else fst (overrideInstance inst indicator))"

subsection \<open>Example data\<close>

definition maTemplate :: indicatorTemplate where
  "maTemplate = \<lparr> name = ''MA'', shortName = ''MA'', series = PRICE, calcParams = [5],
     precision = 4, plots = [''ma5''], minValue = None, maxValue = None,
     shouldOhlc = False, shouldFormatBigNumber = False, styles = None, extendData = [],
     regeneratePlots = None, createToolTipDataSource = None, draw = None,
     calc = (\<lambda>ps dl. Some (map (\<lambda>x. x + sum_list ps) dl)), result = [] \<rparr>"

definition volTemplate :: indicatorTemplate where
  "volTemplate = \<lparr> name = ''VOL'', shortName = ''VOL'', series = VOLUME, calcParams = [5, 10],
     precision = 0, plots = [''volume''], minValue = Some 0, maxValue = None,
     shouldOhlc = False, shouldFormatBigNumber = True, styles = None, extendData = [],
     regeneratePlots = None, createToolTipDataSource = None, draw = None,
     calc = (\<lambda>ps dl. Some dl), result = [] \<rparr>"

text \<open>A store with two registered templates, three data points and no instance.\<close>

definition freshStore :: indicatorStore where
  "freshStore = \<lparr> dataList = [10, 11, 12],
     templates = [''MA'' \<mapsto> maTemplate, ''VOL'' \<mapsto> volTemplate],
     instances = [] \<rparr>"

text \<open>The store after \<^verbatim>\<open>addInstance('pane1', { name: 'MA' }, true)\<close>.\<close>

definition storeWithMA :: indicatorStore where
  "storeWithMA = snd (addInstance ''pane1'' (nameOnly ''MA'') True freshStore)"

text \<open>The instance that this call creates: the template, recomputed on the data list.\<close>

definition maInstance :: indicatorTemplate where
  "maInstance = maTemplate\<lparr>result := [15, 16, 17]\<rparr>"

text \<open>The configuration \<^verbatim>\<open>{ name: 'MA', minValue: 1, maxValue: 2 }\<close>.\<close>

definition boundsPatch :: indicator where
  "boundsPatch = (nameOnly ''MA'')\<lparr>ind_minValue := Val 1, ind_maxValue := Val 2\<rparr>"

section \<open>Properties\<close>

subsection \<open>The example data, evaluated\<close>

lemma storeWithMA_eq:
  "storeWithMA = freshStore\<lparr>instances := [(''pane1'', [(''MA'', maInstance)])]\<rparr>"
  by (simp add: storeWithMA_def addInstance_def freshStore_def nameOnly_def
      overrideInstance_def applySetter_def calcIndicator_def maTemplate_def maInstance_def
      has_def Let_def)

lemma storeWithMA_pane1: "map_of (instances storeWithMA) ''pane1'' = Some [(''MA'', maInstance)]"
  by (simp add: storeWithMA_eq)

lemma storeWithMA_instanceAt: "instanceAt storeWithMA ''pane1'' ''MA'' = Some maInstance"
  by (simp add: instanceAt_def storeWithMA_pane1)

subsection \<open>\<^verbatim>\<open>addInstance\<close>\<close>

lemma addInstance_pane_present:
  assumes "map_of (instances store) paneId = Some m"
  shows "addInstance paneId indicator isStack store = (Inr False, store)"
  using assms by (simp add: addInstance_def)

text \<open>
  C2. For every pane that currently has an entry in the instance table, whatever names it
  holds, \<^verbatim>\<open>addInstance\<close> returns \<^verbatim>\<open>false\<close> and leaves the whole store unchanged,
  also when the name of the configuration is not yet in the pane: the guard tests that the
  pane exists, not that the name is a member.
\<close>

theorem addInstance_existing_pane_rejected:
  "hasInstances paneId store \<Longrightarrow>
     addInstance paneId indicator isStack store = (Inr False, store)"
  by (auto simp: hasInstances_def has_def intro: addInstance_pane_present)

text \<open>
  On the store that holds \<^verbatim>\<open>MA\<close> in \<^verbatim>\<open>pane1\<close>, adding \<^verbatim>\<open>VOL\<close>, a name that
  the pane does not hold, is rejected.
\<close>

theorem addInstance_existing_pane_rejected_witness:
  "hasInstances ''pane1'' storeWithMA \<and> \<not> has (getInstances ''pane1'' storeWithMA) ''VOL''
   \<and> addInstance ''pane1'' (nameOnly ''VOL'') False storeWithMA = (Inr False, storeWithMA)"
proof -
  have h: "hasInstances ''pane1'' storeWithMA"
    by (simp add: hasInstances_def has_def storeWithMA_pane1)
  have "\<not> has (getInstances ''pane1'' storeWithMA) ''VOL''"
    by (simp add: getInstances_def has_def storeWithMA_pane1)
  with h addInstance_existing_pane_rejected [OF h] show ?thesis by simp
qed

text \<open>
  C7. For every pane and every name already present in the pane, \<^verbatim>\<open>addInstance\<close>
  under that name returns \<^verbatim>\<open>false\<close>, raises no error, and leaves the store, so
  also the configuration and the result of the existing instance, as it was.
\<close>

theorem addInstance_duplicate_noop:
  "instanceAt store paneId (ind_name indicator) = Some inst \<Longrightarrow>
     addInstance paneId indicator isStack store = (Inr False, store)
     \<and> instanceAt (snd (addInstance paneId indicator isStack store)) paneId (ind_name indicator)
         = Some inst"
  by (auto simp: instanceAt_def addInstance_pane_present split: option.splits)

theorem addInstance_duplicate_noop_witness:
  "instanceAt storeWithMA ''pane1'' (ind_name (nameOnly ''MA'')) = Some maInstance
   \<and> addInstance ''pane1'' (nameOnly ''MA'') True storeWithMA = (Inr False, storeWithMA)"
proof -
  have h: "instanceAt storeWithMA ''pane1'' (ind_name (nameOnly ''MA'')) = Some maInstance"
    by (simp add: nameOnly_def storeWithMA_instanceAt)
  from h addInstance_duplicate_noop [OF h] show ?thesis by simp
qed

text \<open>
  C1. Stack accumulation: after a successful \<^verbatim>\<open>addInstance(P, {name: N1}, true)\<close>, a
  call \<^verbatim>\<open>addInstance(P, {name: N2}, true)\<close> with another name should leave both names
  in the pane. Evaluated on the store with the templates \<^verbatim>\<open>MA\<close> and \<^verbatim>\<open>VOL\<close>
  registered: the first call succeeds; the second call, for the registered name
  \<^verbatim>\<open>VOL\<close>, returns \<^verbatim>\<open>false\<close> and changes nothing, so the pane holds \<^verbatim>\<open>MA\<close>
  alone.
\<close>

theorem stacked_second_add_rejected:
  "fst (addInstance ''pane1'' (nameOnly ''MA'') True freshStore) = Inr True
   \<and> snd (addInstance ''pane1'' (nameOnly ''MA'') True freshStore) = storeWithMA
   \<and> addInstance ''pane1'' (nameOnly ''VOL'') True storeWithMA = (Inr False, storeWithMA)
   \<and> map fst (getInstances ''pane1'' storeWithMA) = [''MA'']
   \<and> instanceAt storeWithMA ''pane1'' ''VOL'' = None"
proof -
  have "fst (addInstance ''pane1'' (nameOnly ''MA'') True freshStore) = Inr True"
    by (simp add: addInstance_def freshStore_def nameOnly_def overrideInstance_def
        applySetter_def calcIndicator_def maTemplate_def has_def Let_def)
  moreover have "addInstance ''pane1'' (nameOnly ''VOL'') True storeWithMA = (Inr False, storeWithMA)"
    by (rule addInstance_pane_present [OF storeWithMA_pane1])
  moreover have "map fst (getInstances ''pane1'' storeWithMA) = [''MA'']"
    by (simp add: getInstances_def storeWithMA_pane1)
  moreover have "instanceAt storeWithMA ''pane1'' ''VOL'' = None"
    by (simp add: instanceAt_def storeWithMA_pane1)
  ultimately show ?thesis by (simp add: storeWithMA_def)
qed

lemma update_absent: "map_of al k = None \<Longrightarrow> AList.update k v al = al @ [(k, v)]"
  by (induction al) auto

text \<open>
  C4. An \<^verbatim>\<open>addInstance\<close> for a name without a registered template should fail and
  leave the table as it was, without even an empty pane entry. Evaluated on the store
  without instances and the unregistered name \<^verbatim>\<open>BOLL\<close>: the call fails, and the
  table then holds an entry for \<^verbatim>\<open>pane1\<close> with an empty mapping, so that
  \<^verbatim>\<open>hasInstances\<close> answers \<^verbatim>\<open>true\<close> for a pane without instances, a state
  that \<^verbatim>\<open>removeInstance\<close> never leaves.
\<close>

theorem unknown_template_leaves_empty_pane:
  "templates freshStore ''BOLL'' = None
   \<and> addInstance ''pane1'' (nameOnly ''BOLL'') True freshStore
       = (Inl TypeError, freshStore\<lparr>instances := [(''pane1'', [])]\<rparr>)
   \<and> instances (snd (addInstance ''pane1'' (nameOnly ''BOLL'') True freshStore))
       \<noteq> instances freshStore
   \<and> \<not> hasInstances ''pane1'' freshStore
   \<and> hasInstances ''pane1'' (snd (addInstance ''pane1'' (nameOnly ''BOLL'') True freshStore))"
proof -
  have run: "addInstance ''pane1'' (nameOnly ''BOLL'') True freshStore
       = (Inl TypeError, freshStore\<lparr>instances := [(''pane1'', [])]\<rparr>)"
    by (simp add: addInstance_def freshStore_def nameOnly_def Let_def)
  have "templates freshStore ''BOLL'' = None"
    by (simp add: freshStore_def)
  moreover have "instances freshStore = []"
    by (simp add: freshStore_def)
  ultimately show ?thesis
    by (simp add: run hasInstances_def has_def)
qed

text \<open>
  The same happens on every store: for a pane without an entry and a name without a
  template the call fails after the empty mapping of the pane has been inserted.
\<close>

lemma addInstance_unregistered_fresh_pane:
  assumes "\<not> hasInstances paneId store"
    and "templates store (ind_name indicator) = None"
  shows "addInstance paneId indicator isStack store
           = (Inl TypeError, store\<lparr>instances := instances store @ [(paneId, [])]\<rparr>)"
proof -
  from assms(1) have "map_of (instances store) paneId = None"
    by (simp add: hasInstances_def has_def)
  then show ?thesis
    using assms(2) by (simp add: addInstance_def Let_def update_absent)
qed

text \<open>
  \<^verbatim>\<open>removeInstance\<close> never leaves a pane entry with an empty mapping, and
  \<^verbatim>\<open>getInstance(paneId, name)\<close> returns the instance stored under the two keys.
\<close>

lemma removeInstance_no_empty_pane:
  "map_of (instances (snd (removeInstance paneId nm store))) paneId \<noteq> Some []"
  by (auto simp: removeInstance_def Let_def update_conv' delete_conv' split: option.splits)

lemma getInstance_single:
  "getInstance (Some pid) (Some n) store = Single (instanceAt store pid n)"
  by (simp add: getInstance_def instanceAt_def Let_def)

subsection \<open>\<^verbatim>\<open>_overrideInstance\<close>\<close>

text \<open>
  C3. A patch that holds only \<^verbatim>\<open>maxValue\<close> should reach the setter of
  \<^verbatim>\<open>maxValue\<close> and leave \<^verbatim>\<open>minValue\<close> alone. Evaluated on the default
  \<^verbatim>\<open>MA\<close> instance with the patch \<^verbatim>\<open>{ name: 'MA', maxValue: 100 }\<close>: the call
  sets \<^verbatim>\<open>minValue\<close> to 100 and leaves \<^verbatim>\<open>maxValue\<close> at null, where
  \<^verbatim>\<open>setMaxValue\<close> would have set \<^verbatim>\<open>maxValue\<close> to 100.
\<close>

theorem maxValue_patch_sets_minValue:
  "overrideInstance maTemplate ((nameOnly ''MA'')\<lparr>ind_maxValue := Val 100\<rparr>)
     = (maTemplate\<lparr>minValue := Some 100\<rparr>, True, False)
   \<and> minValue maTemplate = None
   \<and> maxValue (fst (overrideInstance maTemplate ((nameOnly ''MA'')\<lparr>ind_maxValue := Val 100\<rparr>)))
       = None
   \<and> setMaxValue (Some 100) maTemplate = (maTemplate\<lparr>maxValue := Some 100\<rparr>, True)"
  by (simp add: nameOnly_def overrideInstance_def applySetter_def setMinValue_def
      setMaxValue_def maTemplate_def Let_def)

text \<open>
  C5. Applying the same patch a second time should report no change. Evaluated on the
  default \<^verbatim>\<open>MA\<close> instance with the patch
  \<^verbatim>\<open>{ name: 'MA', minValue: 1, maxValue: 2 }\<close>: both values go through
  \<^verbatim>\<open>setMinValue\<close>, the first application leaves \<^verbatim>\<open>minValue\<close> at 2, and the second
  application, on the instance the first one left, sets it to 1 and back to 2 and reports
  a change again. The state after the second application is the state after the first.
\<close>

theorem same_patch_twice_reports_change:
  "overrideInstance maTemplate boundsPatch = (maTemplate\<lparr>minValue := Some 2\<rparr>, True, False)
   \<and> overrideInstance (fst (overrideInstance maTemplate boundsPatch)) boundsPatch
       = (maTemplate\<lparr>minValue := Some 2\<rparr>, True, False)"
  by (simp add: boundsPatch_def nameOnly_def overrideInstance_def applySetter_def
      setMinValue_def maTemplate_def Let_def)

lemma overrideInstance_shortName_only:
  "s \<noteq> shortName inst \<Longrightarrow>
     overrideInstance inst ((nameOnly n)\<lparr>ind_shortName := Some s\<rparr>)
       = (inst\<lparr>shortName := s\<rparr>, True, False)"
  by (simp add: overrideInstance_def nameOnly_def applySetter_def setShortName_def Let_def)

lemma overrideInstance_calcParams_only:
  "cp \<noteq> calcParams inst \<Longrightarrow>
     overrideInstance inst ((nameOnly n)\<lparr>ind_calcParams := Some cp\<rparr>)
       = (inst\<lparr>calcParams := cp\<rparr>, True, True)"
  by (simp add: overrideInstance_def nameOnly_def applySetter_def setCalcParams_def Let_def)

lemma overrideInstance_no_calcParams:
  "ind_calcParams q = None \<Longrightarrow> \<not> snd (snd (overrideInstance inst q))"
  by (simp add: overrideInstance_def Let_def)

text \<open>
  The second flag of \<^verbatim>\<open>_overrideInstance\<close> for an arbitrary patch: it is set exactly
  when \<^verbatim>\<open>calcParams\<close> is present and differs from the current value, whatever else
  the patch holds. No step of the override touches the result.
\<close>

lemma applySetter_calcParams:
  "(\<And>v i. calcParams (fst (setter v i)) = calcParams i) \<Longrightarrow>
     calcParams (fst (applySetter field setter st)) = calcParams (fst st)"
  by (simp add: applySetter_def split: option.splits)

lemma applySetter_result:
  "(\<And>v i. result (fst (setter v i)) = result i) \<Longrightarrow>
     result (fst (applySetter field setter st)) = result (fst st)"
  by (simp add: applySetter_def split: option.splits)

lemma setters_result:
  "result (fst (setShortName a i)) = result i"
  "result (fst (setSeries b i)) = result i"
  "result (fst (setCalcParams c i)) = result i"
  "result (fst (setPlots d i)) = result i"
  "result (fst (setMinValue e i)) = result i"
  "result (fst (setPrecision f g i)) = result i"
  "result (fst (setShouldOhlc h i)) = result i"
  "result (fst (setShouldFormatBigNumber j i)) = result i"
  "result (fst (setStyles k i)) = result i"
  "result (fst (setExtendData l i)) = result i"
  "result (fst (setRegeneratePlots m i)) = result i"
  "result (fst (setCreateToolTipDataSource n i)) = result i"
  "result (fst (setDraw o' i)) = result i"
  by (simp_all add: setShortName_def setSeries_def setCalcParams_def setPlots_def
      setMinValue_def setPrecision_def setShouldOhlc_def setShouldFormatBigNumber_def
      setStyles_def setExtendData_def setRegeneratePlots_def setCreateToolTipDataSource_def
      setDraw_def)

lemma overrideInstance_flag:
  "snd (snd (overrideInstance i p)) =
     (case ind_calcParams p of None \<Rightarrow> False | Some v \<Rightarrow> v \<noteq> calcParams i)"
  by (simp add: overrideInstance_def Let_def setCalcParams_def
      applySetter_calcParams [where setter = setShortName]
      applySetter_calcParams [where setter = setSeries]
      setShortName_def setSeries_def split: option.splits)

lemma overrideInstance_result: "result (fst (overrideInstance i p)) = result i"
  by (simp add: overrideInstance_def Let_def applySetter_result setters_result
      split: option.splits)

subsection \<open>\<^verbatim>\<open>override\<close>\<close>

lemma overrideNamed_tasks:
  "snd (overrideNamed dl q m) =
     map (\<lambda>i. snd (calcIndicator dl (fst (overrideInstance i q))))
       (filter (\<lambda>i. snd (snd (overrideInstance i q)))
          (List.map_filter (\<lambda>p. map_of (snd p) (ind_name q)) [(pid, m)]))"
  by (simp add: overrideNamed_def Let_def List.map_filter_simps split: option.splits)

lemma overrideNamed_map_of:
  "map_of (fst (overrideNamed dl q m)) k =
     (if k = ind_name q then map_option (overridden dl q) (map_of m k) else map_of m k)"
  by (simp add: overrideNamed_def Let_def overridden_def update_conv' split: option.splits)

lemma overrideEachPane_tasks:
  "snd (overrideEachPane dl q ps) =
     map (\<lambda>i. snd (calcIndicator dl (fst (overrideInstance i q))))
       (filter (\<lambda>i. snd (snd (overrideInstance i q)))
          (List.map_filter (\<lambda>p. map_of (snd p) (ind_name q)) ps))"
proof (induction ps)
  case Nil
  show ?case by (simp add: List.map_filter_simps)
next
  case (Cons p ps)
  have "snd (overrideNamed dl q (snd p)) =
     map (\<lambda>i. snd (calcIndicator dl (fst (overrideInstance i q))))
       (filter (\<lambda>i. snd (snd (overrideInstance i q)))
          (List.map_filter (\<lambda>p. map_of (snd p) (ind_name q)) [p]))"
    using overrideNamed_tasks [of dl q "snd p" "fst p"] by simp
  with Cons show ?case
    by (simp add: Let_def List.map_filter_simps split: option.splits)
qed

lemma overrideEachPane_map_of:
  "map_of (fst (overrideEachPane dl q ps)) pid =
     map_option (\<lambda>m. fst (overrideNamed dl q m)) (map_of ps pid)"
  by (induction ps) (simp_all add: Let_def)

lemma override_tasks:
  "fst (override q paneId store) =
     map (\<lambda>i. snd (calcIndicator (dataList store) (fst (overrideInstance i q))))
       (filter (\<lambda>i. snd (snd (overrideInstance i q))) (matchedInstances q paneId store))"
  by (simp add: override_def matchedInstances_def selectedPanes_def Let_def
      overrideEachPane_tasks overrideNamed_tasks [where pid = "the paneId"]
      split: option.splits)

lemma override_instanceAt:
  "instanceAt (snd (override q paneId store)) pid k =
     (if k = ind_name q \<and> (paneId = None \<or> paneId = Some pid)
      then map_option (overridden (dataList store) q) (instanceAt store pid k)
      else instanceAt store pid k)"
  by (auto simp add: override_def instanceAt_def Let_def update_conv'
      overrideEachPane_map_of overrideNamed_map_of split: option.splits)

lemma matchedInstances_pane:
  "instanceAt store pid (ind_name q) = Some inst \<Longrightarrow>
     matchedInstances q (Some pid) store = [inst]"
  by (auto simp: instanceAt_def matchedInstances_def selectedPanes_def
      List.map_filter_simps split: option.splits)

lemma map_filter_member:
  "(pid, m) \<in> set ps \<Longrightarrow> map_of m n = Some i \<Longrightarrow>
     i \<in> set (List.map_filter (\<lambda>p. map_of (snd p) n) ps)"
  by (induction ps) (auto simp: List.map_filter_simps split: option.splits)

lemma matchedInstances_all:
  "instanceAt store pid (ind_name q) = Some inst \<Longrightarrow>
     inst \<in> set (matchedInstances q None store)"
  by (auto simp: instanceAt_def matchedInstances_def selectedPanes_def
      split: option.splits dest: map_of_SomeD intro: map_filter_member)

text \<open>
  C10. \<^verbatim>\<open>override(config, paneId)\<close> applies the field overrides to every matching
  instance, also to those that are not recomputed, and the returned list holds one
  success flag for each matched instance whose \<^verbatim>\<open>calcParamsChanged\<close> flag was set, in
  the order of the iteration; a matched instance with display-only changes has no slot, so
  the length of the list is the number of recomputed instances.
\<close>

theorem override_flags_only_recomputed:
  "fst (override q paneId store) =
     map (\<lambda>i. snd (calcIndicator (dataList store) (fst (overrideInstance i q))))
       (filter (\<lambda>i. snd (snd (overrideInstance i q))) (matchedInstances q paneId store))
   \<and> length (fst (override q paneId store)) =
       length (filter (\<lambda>i. snd (snd (overrideInstance i q))) (matchedInstances q paneId store))
   \<and> instanceAt (snd (override q paneId store)) pid k =
       (if k = ind_name q \<and> (paneId = None \<or> paneId = Some pid)
        then map_option
               (\<lambda>i. if snd (snd (overrideInstance i q))
                     then fst (calcIndicator (dataList store) (fst (overrideInstance i q)))
                     else fst (overrideInstance i q))
               (instanceAt store pid k)
        else instanceAt store pid k)"
proof -
  have "overridden (dataList store) q =
      (\<lambda>i. if snd (snd (overrideInstance i q))
            then fst (calcIndicator (dataList store) (fst (overrideInstance i q)))
            else fst (overrideInstance i q))"
    by (rule ext) (simp add: overridden_def)
  then show ?thesis
    using override_instanceAt [of q paneId store pid k]
    by (auto simp: override_tasks)
qed

text \<open>
  On the store that holds \<^verbatim>\<open>MA\<close> in \<^verbatim>\<open>pane1\<close>, a patch of the short name
  matches one instance and overrides it, and the returned list is empty.
\<close>

lemma override_display_only_example:
  "matchedInstances ((nameOnly ''MA'')\<lparr>ind_shortName := Some ''MA5''\<rparr>) None storeWithMA
     = [maInstance]
   \<and> override ((nameOnly ''MA'')\<lparr>ind_shortName := Some ''MA5''\<rparr>) None storeWithMA
     = ([], freshStore\<lparr>instances :=
              [(''pane1'', [(''MA'', maInstance\<lparr>shortName := ''MA5''\<rparr>)])]\<rparr>)"
proof -
  have "''MA5'' \<noteq> shortName maInstance"
    by (simp add: maInstance_def maTemplate_def)
  from overrideInstance_shortName_only [OF this, of "''MA''"] show ?thesis
    by (simp add: override_def overrideNamed_def matchedInstances_def selectedPanes_def
        storeWithMA_eq List.map_filter_simps Let_def nameOnly_def)
qed

text \<open>
  C6. For every existing instance: a patch that changes only \<^verbatim>\<open>shortName\<close> reports
  (changed, calcParamsChanged) = (true, false), and \<^verbatim>\<open>override\<close> with it overrides
  the instance and schedules no recomputation; a patch that changes only
  \<^verbatim>\<open>calcParams\<close> reports (true, true), and \<^verbatim>\<open>override\<close> with it schedules the
  recomputation of the instance. Recomputation is triggered by changes of
  \<^verbatim>\<open>calcParams\<close> and by nothing else: for any patch \<open>p\<close>, whatever fields it
  holds, and any instance \<open>i\<close>, the second flag is set exactly when \<open>p\<close> holds
  \<^verbatim>\<open>calcParams\<close> with a value other than the current one; the override itself leaves
  the result alone; \<^verbatim>\<open>override\<close> schedules one recomputation for each matched
  instance whose \<^verbatim>\<open>calcParams\<close> the patch changes, and none for any other; and a
  matched instance is recomputed only in that case.
\<close>

theorem calcParams_isolation:
  assumes "instanceAt store pid n = Some inst"
    and "s \<noteq> shortName inst"
    and "cp \<noteq> calcParams inst"
    and "ind_calcParams q = None"
  shows "snd (overrideInstance inst ((nameOnly n)\<lparr>ind_shortName := Some s\<rparr>)) = (True, False)
    \<and> fst (override ((nameOnly n)\<lparr>ind_shortName := Some s\<rparr>) (Some pid) store) = []
    \<and> instanceAt (snd (override ((nameOnly n)\<lparr>ind_shortName := Some s\<rparr>) (Some pid) store)) pid n
        = Some (inst\<lparr>shortName := s\<rparr>)
    \<and> snd (overrideInstance inst ((nameOnly n)\<lparr>ind_calcParams := Some cp\<rparr>)) = (True, True)
    \<and> fst (override ((nameOnly n)\<lparr>ind_calcParams := Some cp\<rparr>) (Some pid) store)
        = [snd (calcIndicator (dataList store) (inst\<lparr>calcParams := cp\<rparr>))]
    \<and> instanceAt (snd (override ((nameOnly n)\<lparr>ind_calcParams := Some cp\<rparr>) (Some pid) store)) pid n
        = Some (fst (calcIndicator (dataList store) (inst\<lparr>calcParams := cp\<rparr>)))
    \<and> fst (override ((nameOnly n)\<lparr>ind_calcParams := Some cp\<rparr>) None store) \<noteq> []
    \<and> fst (override q paneId store) = []
    \<and> snd (snd (overrideInstance i p)) =
        (case ind_calcParams p of None \<Rightarrow> False | Some v \<Rightarrow> v \<noteq> calcParams i)
    \<and> result (fst (overrideInstance i p)) = result i
    \<and> fst (override p paneId store) =
        map (\<lambda>i. snd (calcIndicator (dataList store) (fst (overrideInstance i p))))
          (filter (\<lambda>i. case ind_calcParams p of None \<Rightarrow> False | Some v \<Rightarrow> v \<noteq> calcParams i)
             (matchedInstances p paneId store))
    \<and> instanceAt (snd (override p paneId store)) pid' k =
        (if k = ind_name p \<and> (paneId = None \<or> paneId = Some pid')
         then map_option
                (\<lambda>i. if (case ind_calcParams p of None \<Rightarrow> False | Some v \<Rightarrow> v \<noteq> calcParams i)
                      then fst (calcIndicator (dataList store) (fst (overrideInstance i p)))
                      else fst (overrideInstance i p))
                (instanceAt store pid' k)
         else instanceAt store pid' k)"
proof -
  let ?sn = "(nameOnly n)\<lparr>ind_shortName := Some s\<rparr>"
  let ?cp = "(nameOnly n)\<lparr>ind_calcParams := Some cp\<rparr>"
  have names: "ind_name ?sn = n" "ind_name ?cp = n"
    by (simp_all add: nameOnly_def)
  have sn: "overrideInstance inst ?sn = (inst\<lparr>shortName := s\<rparr>, True, False)"
    using assms(2) by (rule overrideInstance_shortName_only)
  have cp: "overrideInstance inst ?cp = (inst\<lparr>calcParams := cp\<rparr>, True, True)"
    using assms(3) by (rule overrideInstance_calcParams_only)
  have m_sn: "matchedInstances ?sn (Some pid) store = [inst]"
    using assms(1) by (intro matchedInstances_pane) (simp add: names)
  have m_cp: "matchedInstances ?cp (Some pid) store = [inst]"
    using assms(1) by (intro matchedInstances_pane) (simp add: names)
  have "inst \<in> set (matchedInstances ?cp None store)"
    using assms(1) by (intro matchedInstances_all) (simp add: names)
  then have "inst \<in> set (filter (\<lambda>i. snd (snd (overrideInstance i ?cp)))
      (matchedInstances ?cp None store))"
    by (simp add: cp)
  then have all: "fst (override ?cp None store) \<noteq> []"
    unfolding override_tasks by (auto simp del: set_filter)
  have none: "fst (override q paneId store) = []"
    using assms(4) by (simp add: override_tasks overrideInstance_no_calcParams)
  have t_sn: "fst (override ?sn (Some pid) store) = []"
    by (simp add: override_tasks m_sn sn)
  have t_cp: "fst (override ?cp (Some pid) store)
      = [snd (calcIndicator (dataList store) (inst\<lparr>calcParams := cp\<rparr>))]"
    by (simp add: override_tasks m_cp cp)
  have i_sn: "instanceAt (snd (override ?sn (Some pid) store)) pid n = Some (inst\<lparr>shortName := s\<rparr>)"
    using assms(1) by (simp add: override_instanceAt names overridden_def sn)
  have i_cp: "instanceAt (snd (override ?cp (Some pid) store)) pid n
      = Some (fst (calcIndicator (dataList store) (inst\<lparr>calcParams := cp\<rparr>)))"
    using assms(1) by (simp add: override_instanceAt names overridden_def cp)
  have first: "snd (overrideInstance inst ?sn) = (True, False)
    \<and> fst (override ?sn (Some pid) store) = []
    \<and> instanceAt (snd (override ?sn (Some pid) store)) pid n = Some (inst\<lparr>shortName := s\<rparr>)
    \<and> snd (overrideInstance inst ?cp) = (True, True)
    \<and> fst (override ?cp (Some pid) store)
        = [snd (calcIndicator (dataList store) (inst\<lparr>calcParams := cp\<rparr>))]
    \<and> instanceAt (snd (override ?cp (Some pid) store)) pid n
        = Some (fst (calcIndicator (dataList store) (inst\<lparr>calcParams := cp\<rparr>)))
    \<and> fst (override ?cp None store) \<noteq> []
    \<and> fst (override q paneId store) = []"
    using sn cp all none t_sn t_cp i_sn i_cp by simp
  have flag: "(\<lambda>i. snd (snd (overrideInstance i p))) =
      (\<lambda>i. case ind_calcParams p of None \<Rightarrow> False | Some v \<Rightarrow> v \<noteq> calcParams i)"
    by (rule ext) (rule overrideInstance_flag)
  have g_flag: "snd (snd (overrideInstance i p)) =
        (case ind_calcParams p of None \<Rightarrow> False | Some v \<Rightarrow> v \<noteq> calcParams i)"
    by (rule overrideInstance_flag)
  have g_result: "result (fst (overrideInstance i p)) = result i"
    by (rule overrideInstance_result)
  have g_tasks: "fst (override p paneId store) =
        map (\<lambda>i. snd (calcIndicator (dataList store) (fst (overrideInstance i p))))
          (filter (\<lambda>i. case ind_calcParams p of None \<Rightarrow> False | Some v \<Rightarrow> v \<noteq> calcParams i)
             (matchedInstances p paneId store))"
    using override_tasks [of p paneId store] by (simp only: flag)
  have ov: "overridden (dataList store) p =
      (\<lambda>i. if (case ind_calcParams p of None \<Rightarrow> False | Some v \<Rightarrow> v \<noteq> calcParams i)
            then fst (calcIndicator (dataList store) (fst (overrideInstance i p)))
            else fst (overrideInstance i p))"
    by (rule ext) (simp only: overridden_def overrideInstance_flag)
  have g_at: "instanceAt (snd (override p paneId store)) pid' k =
        (if k = ind_name p \<and> (paneId = None \<or> paneId = Some pid')
         then map_option
                (\<lambda>i. if (case ind_calcParams p of None \<Rightarrow> False | Some v \<Rightarrow> v \<noteq> calcParams i)
                      then fst (calcIndicator (dataList store) (fst (overrideInstance i p)))
                      else fst (overrideInstance i p))
                (instanceAt store pid' k)
         else instanceAt store pid' k)"
    using override_instanceAt [of p paneId store pid' k] by (simp only: ov)
  from first g_flag g_result g_tasks g_at show ?thesis
    by (intro conjI) (elim conjE, assumption)+
qed

text \<open>
  On the store that holds \<^verbatim>\<open>MA\<close>, with \<^verbatim>\<open>calcParams\<close> [5], in \<^verbatim>\<open>pane1\<close>: the
  patch \<^verbatim>\<open>{ name: 'MA', shortName: 'X', calcParams: [5] }\<close> holds
  \<^verbatim>\<open>calcParams\<close> without changing it, reports (true, false) and schedules nothing.
\<close>

theorem calcParams_isolation_witness:
  "instanceAt storeWithMA ''pane1'' ''MA'' = Some maInstance
   \<and> ''MA10'' \<noteq> shortName maInstance
   \<and> [10] \<noteq> calcParams maInstance
   \<and> ind_calcParams ((nameOnly ''MA'')\<lparr>ind_precision := Some 2\<rparr>) = None
   \<and> fst (override ((nameOnly ''MA'')\<lparr>ind_shortName := Some ''MA10''\<rparr>) (Some ''pane1'')
        storeWithMA) = []
   \<and> fst (override ((nameOnly ''MA'')\<lparr>ind_calcParams := Some [10]\<rparr>) (Some ''pane1'')
        storeWithMA) = [True]
   \<and> map_option result
        (instanceAt (snd (override ((nameOnly ''MA'')\<lparr>ind_calcParams := Some [10]\<rparr>)
           (Some ''pane1'') storeWithMA)) ''pane1'' ''MA'') = Some [20, 21, 22]
   \<and> fst (override ((nameOnly ''MA'')\<lparr>ind_precision := Some 2\<rparr>) None storeWithMA) = []
   \<and> snd (overrideInstance maInstance
        ((nameOnly ''MA'')\<lparr>ind_shortName := Some ''X'', ind_calcParams := Some [5]\<rparr>))
       = (True, False)
   \<and> fst (override ((nameOnly ''MA'')\<lparr>ind_shortName := Some ''X'', ind_calcParams := Some [5]\<rparr>)
        None storeWithMA) = []
   \<and> map_option result
        (instanceAt (snd (override
           ((nameOnly ''MA'')\<lparr>ind_shortName := Some ''X'', ind_calcParams := Some [5]\<rparr>)
           None storeWithMA)) ''pane1'' ''MA'') = Some [15, 16, 17]"
proof -
  let ?p = "(nameOnly ''MA'')\<lparr>ind_shortName := Some ''X'', ind_calcParams := Some [5]\<rparr>"
  have h1: "instanceAt storeWithMA ''pane1'' ''MA'' = Some maInstance"
    by (rule storeWithMA_instanceAt)
  have h2: "''MA10'' \<noteq> shortName maInstance"
    by (simp add: maInstance_def maTemplate_def)
  have h3: "[10] \<noteq> calcParams maInstance"
    by (simp add: maInstance_def maTemplate_def)
  have h4: "ind_calcParams ((nameOnly ''MA'')\<lparr>ind_precision := Some 2\<rparr>) = None"
    by (simp add: nameOnly_def)
  have run: "calcIndicator (dataList storeWithMA) (maInstance\<lparr>calcParams := [10]\<rparr>)
      = (maInstance\<lparr>calcParams := [10], result := [20, 21, 22]\<rparr>, True)"
    by (simp add: calcIndicator_def storeWithMA_eq freshStore_def maInstance_def maTemplate_def)
  have p: "ind_calcParams ?p = Some [5]" "ind_name ?p = ''MA''"
    by (simp_all add: nameOnly_def)
  have same: "calcParams maInstance = [5]" "result maInstance = [15, 16, 17]"
    by (simp_all add: maInstance_def maTemplate_def)
  have changed: "fst (snd (overrideInstance maInstance ?p))"
    by (simp add: overrideInstance_def applySetter_def setShortName_def nameOnly_def
        maInstance_def maTemplate_def Let_def)
  have matched: "matchedInstances ?p None storeWithMA = [maInstance]"
    by (simp add: matchedInstances_def selectedPanes_def storeWithMA_eq
        List.map_filter_simps p)
  note at_patch = calcParams_isolation [OF h1 h2 h3 h4, where paneId = None and p = ?p
      and i = maInstance and pid' = "''pane1''" and k = "''MA''"]
  from at_patch have flag: "\<not> snd (snd (overrideInstance maInstance ?p))"
    by (simp add: p same)
  from at_patch have res: "result (fst (overrideInstance maInstance ?p)) = [15, 16, 17]"
    by (simp add: same)
  from at_patch have tasks: "fst (override ?p None storeWithMA) = []"
    by (simp add: p same matched)
  from at_patch have at: "instanceAt (snd (override ?p None storeWithMA)) ''pane1'' ''MA''
      = Some (fst (overrideInstance maInstance ?p))"
    by (simp add: p same h1)
  from at_patch have old: "fst (override ((nameOnly ''MA'')\<lparr>ind_shortName := Some ''MA10''\<rparr>)
        (Some ''pane1'') storeWithMA) = []
   \<and> fst (override ((nameOnly ''MA'')\<lparr>ind_calcParams := Some [10]\<rparr>) (Some ''pane1'')
        storeWithMA) = [True]
   \<and> map_option result
        (instanceAt (snd (override ((nameOnly ''MA'')\<lparr>ind_calcParams := Some [10]\<rparr>)
           (Some ''pane1'') storeWithMA)) ''pane1'' ''MA'') = Some [20, 21, 22]
   \<and> fst (override ((nameOnly ''MA'')\<lparr>ind_precision := Some 2\<rparr>) None storeWithMA) = []"
    by (simp add: run)
  have pair: "snd (overrideInstance maInstance ?p) = (True, False)"
    using changed flag by (simp add: prod_eq_iff)
  from old h1 h2 h3 h4 pair tasks show ?thesis
    by (simp add: at res)
qed

subsection \<open>\<^verbatim>\<open>calcInstance\<close>\<close>

lemma calcEach_map_of:
  "map_of (fst (calcEach dl m)) k = map_option (\<lambda>i. fst (calcIndicator dl i)) (map_of m k)"
  by (induction m) (simp_all add: Let_def)

lemma calcEach_tasks:
  "snd (calcEach dl m) = map (\<lambda>i. snd (calcIndicator dl i)) (map snd m)"
  by (induction m) (simp_all add: Let_def)

lemma calcEachPane_map_of:
  "map_of (fst (calcEachPane dl ps)) pid = map_option (\<lambda>m. fst (calcEach dl m)) (map_of ps pid)"
  by (induction ps) (simp_all add: Let_def)

lemma calcEachPane_tasks:
  "snd (calcEachPane dl ps) =
     map (\<lambda>i. snd (calcIndicator dl i)) (concat (map (\<lambda>p. map snd (snd p)) ps))"
  by (induction ps) (simp_all add: Let_def calcEach_tasks)

text \<open>
  C9. \<^verbatim>\<open>calcInstance\<close> with a pane id and without a name does not restrict its
  selection to that pane: it takes the branch without a name, does what the call without
  any argument does, and recomputes every instance of every pane; the pane id plays no
  part.
\<close>

theorem calcInstance_pane_without_name:
  "calcInstance None (Some paneId) store = calcInstance None None store
   \<and> fst (calcInstance None (Some paneId) store) =
       map (\<lambda>i. snd (calcIndicator (dataList store) i)) (allInstances store)
   \<and> length (fst (calcInstance None (Some paneId) store)) = length (allInstances store)
   \<and> instanceAt (snd (calcInstance None (Some paneId) store)) pid k =
       map_option (\<lambda>i. fst (calcIndicator (dataList store) i)) (instanceAt store pid k)"
  by (simp add: calcInstance_def Let_def calcEachPane_tasks allInstances_def instanceAt_def
      calcEachPane_map_of calcEach_map_of split: option.splits)

subsection \<open>\<^verbatim>\<open>setSeriesPrecision\<close>\<close>

lemma setInstancePrecision_eq:
  "setInstancePrecision p i =
     (case series i of
        PRICE \<Rightarrow> i\<lparr>precision := price p\<rparr>
      | VOLUME \<Rightarrow> i\<lparr>precision := volume p\<rparr>
      | NORMAL \<Rightarrow> i)"
  by (cases "series i") (simp_all add: setInstancePrecision_def setPrecision_def Let_def)

lemma setInstancePrecision_result: "result (setInstancePrecision p i) = result i"
  by (cases "series i") (simp_all add: setInstancePrecision_eq)

lemma precisionEach_map_of:
  "map_of (precisionEach p m) k = map_option (setInstancePrecision p) (map_of m k)"
  by (induction m) simp_all

lemma precisionEachPane_map_of:
  "map_of (precisionEachPane p ps) pid = map_option (precisionEach p) (map_of ps pid)"
  by (induction ps) simp_all

lemma precisionEach_keys: "map fst (precisionEach p m) = map fst m"
  by (induction m) simp_all

lemma precisionEachPane_keys: "map fst (precisionEachPane p ps) = map fst ps"
  by (induction ps) simp_all

text \<open>
  C8. \<^verbatim>\<open>setSeriesPrecision(p)\<close> sets the precision to \<^verbatim>\<open>p.price\<close> on every instance
  classified \<^verbatim>\<open>PRICE\<close> and to \<^verbatim>\<open>p.volume\<close> on every instance classified
  \<^verbatim>\<open>VOLUME\<close>, in every pane, leaves the instances of any other classification as they
  are, and recomputes nothing: every instance keeps its result, and the panes and names of
  the table, the templates and the data list are unchanged.
\<close>

theorem setSeriesPrecision_targets:
  "instanceAt (setSeriesPrecision p store) pid k =
     map_option (\<lambda>i. case series i of
                        PRICE \<Rightarrow> i\<lparr>precision := price p\<rparr>
                      | VOLUME \<Rightarrow> i\<lparr>precision := volume p\<rparr>
                      | NORMAL \<Rightarrow> i) (instanceAt store pid k)
   \<and> map_option result (instanceAt (setSeriesPrecision p store) pid k) =
       map_option result (instanceAt store pid k)
   \<and> map fst (instances (setSeriesPrecision p store)) = map fst (instances store)
   \<and> map fst (getInstances pid (setSeriesPrecision p store)) = map fst (getInstances pid store)
   \<and> templates (setSeriesPrecision p store) = templates store
   \<and> dataList (setSeriesPrecision p store) = dataList store"
proof -
  have at: "instanceAt (setSeriesPrecision p store) pid k =
      map_option (setInstancePrecision p) (instanceAt store pid k)"
    by (simp add: setSeriesPrecision_def instanceAt_def precisionEachPane_map_of
        precisionEach_map_of split: option.splits)
  have "map_option result (instanceAt (setSeriesPrecision p store) pid k) =
       map_option result (instanceAt store pid k)"
    by (simp add: at option.map_comp comp_def setInstancePrecision_result)
  moreover have "map fst (instances (setSeriesPrecision p store)) = map fst (instances store)"
    by (simp add: setSeriesPrecision_def precisionEachPane_keys)
  moreover have "map fst (getInstances pid (setSeriesPrecision p store))
      = map fst (getInstances pid store)"
    by (simp add: setSeriesPrecision_def getInstances_def precisionEachPane_map_of
        precisionEach_keys split: option.splits)
  moreover have "setInstancePrecision p =
      (\<lambda>i. case series i of
              PRICE \<Rightarrow> i\<lparr>precision := price p\<rparr>
            | VOLUME \<Rightarrow> i\<lparr>precision := volume p\<rparr>
            | NORMAL \<Rightarrow> i)"
    by (rule ext) (rule setInstancePrecision_eq)
  ultimately show ?thesis
    using at by (simp add: setSeriesPrecision_def)
qed

end
